theory Spec2Isabelle
  imports Complex_Main
begin

section \<open>Canary deployment of a database change\<close>

text \<open>
  A shallow embedding of \<^verbatim>\<open>src/src/canary_deployment.py\<close>, class
  \<^verbatim>\<open>CanaryDeployment\<close>. Conventions:
  \<^item> Python floats (latencies, rates) are read as real numbers; rounding is not modelled.
  \<^item> The two dictionary keys \<^verbatim>\<open>'stable'\<close> and \<^verbatim>\<open>'canary'\<close> are the
    constructors of \<open>env\<close>; a dictionary over them is a function or a map from \<open>env\<close>.
  \<^item> Methods that change the object or write to the outside world take the object and
    return it updated. What reaches the outside world (statements sent to the databases,
    warnings, the console lines that mark a decision) is appended to the field
    \<open>journal\<close>, in the order of execution. The rows written to the table
    \<^verbatim>\<open>deployment_metrics\<close> are never read back and are left out.
  \<^item> What the code cannot decide itself comes from a \<open>world\<close>: whether the two
    connections can be opened, for every simulated request the value drawn by
    \<^verbatim>\<open>random.randint(1, 100)\<close>, whether the query succeeded and the latency measured,
    and which of the characters outside ASCII that the code prints the standard output
    can encode.
  \<^item> \<^verbatim>\<open>print\<close> of a line that holds a character the standard output cannot encode
    raises \<^verbatim>\<open>UnicodeEncodeError\<close>; nothing in the class catches it, so the run ends
    there. The handler of \<^verbatim>\<open>logging\<close> swallows the same error, so a logger call
    always returns.
\<close>

subsection \<open>Data\<close>

datatype env = Stable | Canary

text \<open>One entry of \<^verbatim>\<open>self.metrics[env]\<close>: \<^verbatim>\<open>{'success': ..., 'latency': ...}\<close>.\<close>

record metric =
  success :: bool
  latency :: real

text \<open>The dictionary that \<^verbatim>\<open>analyze_metrics\<close> stores under \<^verbatim>\<open>analysis[env]\<close>.\<close>

record summary =
  total_requests :: int
  success_count :: int
  error_rate :: real
  avg_latency :: real
  p95_latency :: real

type_synonym analysis = "env \<rightharpoonup> summary"

datatype py_error = IndexError | UnicodeEncodeError

text \<open>
  The characters outside ASCII in the lines that \<^verbatim>\<open>run_canary_deployment\<close> prints:
  U+2717 (lines 276 and 294), U+2713 (lines 280, 298 and 326) and U+2192 (line 329).
\<close>

datatype mark = Ballot_X | Check_Mark | Rightwards_Arrow

datatype warning =
    ErrorRateSpike real real
  | LatencyDegradation real real

datatype event =
    Connected
  | ConnectionFailed
  | DatabasesInitialized
  | ApplyCanaryChange
  | TrafficRouting int
  | MetricsReport analysis string
  | Warned warning
  | DeploymentFailed
  | RollbackCanary
  | PhaseSuccessful int
  | PromoteStable
  | DeploymentCompleted
  | FeaturesListed
  | Uncaught py_error

text \<open>
  The object. \<open>stable_conn\<close> and \<open>canary_conn\<close> say whether the attribute holds a
  connection (\<^verbatim>\<open>None\<close> is \<open>False\<close>).
\<close>

record canary_deployment =
  stable_conn :: bool
  canary_conn :: bool
  canary_percentage :: int
  metrics :: "env \<Rightarrow> metric list"
  journal :: "event list"

text \<open>\<^verbatim>\<open>__init__\<close>, with nothing yet written to the outside world.\<close>

definition init :: canary_deployment where
  "init = \<lparr>stable_conn = False, canary_conn = False, canary_percentage = 0,
           metrics = (\<lambda>_. []), journal = []\<rparr>"

definition emit :: "event \<Rightarrow> canary_deployment \<Rightarrow> canary_deployment" where
  "emit ev s = s\<lparr>journal := journal s @ [ev]\<rparr>"

subsection \<open>The rollback evaluator\<close>

text \<open>
  \<^verbatim>\<open>should_rollback\<close> (lines 183-201). Its only effect is the warning it logs before
  returning \<^verbatim>\<open>True\<close>.
\<close>

definition should_rollback :: "analysis \<Rightarrow> canary_deployment \<Rightarrow> bool \<times> canary_deployment" where
  "should_rollback analysis s =
     (if analysis Canary = None \<or> analysis Stable = None then (False, s)
      else
        let canary_sum = the (analysis Canary);
            stable_sum = the (analysis Stable)
        in if error_rate canary_sum > error_rate stable_sum * 2
           then (True, emit (Warned (ErrorRateSpike (error_rate canary_sum) (error_rate stable_sum))) s)
           else if p95_latency canary_sum > p95_latency stable_sum * 1.5
           then (True, emit (Warned (LatencyDegradation (p95_latency canary_sum) (p95_latency stable_sum))) s)
           else (False, s))"

subsection \<open>The world, connections and database statements\<close>

text \<open>
  One simulated request, as the outside world decides it: the routing draw of
  \<^verbatim>\<open>random.randint(1, 100)\<close>, whether \<^verbatim>\<open>cursor.execute(query)\<close> went through, and
  the latency in milliseconds that \<^verbatim>\<open>execute_query\<close> measured.
\<close>

record request =
  draw :: int
  query_ok :: bool
  elapsed :: real

text \<open>
  \<open>traffic w k i\<close> is request \<open>i\<close> of the \<open>k\<close>-th call of \<^verbatim>\<open>simulate_traffic\<close>
  (counted from 0). \<open>stdout_encodes w m\<close> says whether the encoding of the standard
  output has the character \<open>m\<close> (UTF-8 has all three; ASCII, Latin-1 and cp1252 have
  none).
\<close>

record world =
  stable_up :: bool
  canary_up :: bool
  traffic :: "nat \<Rightarrow> nat \<Rightarrow> request"
  stdout_encodes :: "mark \<Rightarrow> bool"

text \<open>
  \<^verbatim>\<open>connect_all\<close> (lines 25-43): the stable connection is opened first; any exception is
  caught, logged, and turned into \<^verbatim>\<open>False\<close>.
\<close>

definition connect_all :: "world \<Rightarrow> canary_deployment \<Rightarrow> bool \<times> canary_deployment" where
  "connect_all w s =
     (if \<not> stable_up w then (False, emit ConnectionFailed s)
      else if \<not> canary_up w then (False, emit ConnectionFailed (s\<lparr>stable_conn := True\<rparr>))
      else (True, emit Connected (s\<lparr>stable_conn := True, canary_conn := True\<rparr>)))"

text \<open>The method \<^verbatim>\<open>setup\<close> (lines 45-75).\<close>

definition setup_databases :: "canary_deployment \<Rightarrow> canary_deployment" where
  "setup_databases s = emit DatabasesInitialized s"

definition apply_canary_change :: "canary_deployment \<Rightarrow> canary_deployment" where
  "apply_canary_change s = emit ApplyCanaryChange s"

definition route_traffic :: "int \<Rightarrow> canary_deployment \<Rightarrow> canary_deployment" where
  "route_traffic percentage s = emit (TrafficRouting percentage) (s\<lparr>canary_percentage := percentage\<rparr>)"

definition rollback_canary :: "canary_deployment \<Rightarrow> canary_deployment" where
  "rollback_canary s = emit RollbackCanary s"

text \<open>
  \<^verbatim>\<open>print_metrics\<close> only prints; the journal keeps the analysis it was given and the
  phase label.
\<close>

definition print_metrics :: "analysis \<Rightarrow> string \<Rightarrow> canary_deployment \<Rightarrow> canary_deployment" where
  "print_metrics analysis phase s = emit (MetricsReport analysis phase) s"

text \<open>
  \<^verbatim>\<open>print\<close> of a line that holds the character \<open>m\<close>; the journal keeps the line as the
  event \<open>ev\<close>. Every line that \<^verbatim>\<open>print_metrics\<close> prints is ASCII.
\<close>

definition print_marked ::
    "world \<Rightarrow> mark \<Rightarrow> event \<Rightarrow> canary_deployment \<Rightarrow> py_error + canary_deployment" where
  "print_marked w m ev s = (if stdout_encodes w m then Inr (emit ev s) else Inl UnicodeEncodeError)"

subsection \<open>Traffic simulation\<close>

text \<open>
  \<^verbatim>\<open>execute_query\<close> (lines 98-133) returns \<^verbatim>\<open>(success, latency)\<close>; the exception of the
  query is caught inside.
\<close>

definition execute_query :: "request \<Rightarrow> bool \<Rightarrow> bool \<times> real" where
  "execute_query r use_canary = (query_ok r, elapsed r)"

text \<open>The body of the loop of \<^verbatim>\<open>simulate_traffic\<close> (lines 140-152).\<close>

definition simulate_request :: "request \<Rightarrow> canary_deployment \<Rightarrow> canary_deployment" where
  "simulate_request r s =
     (let use_canary = (draw r \<le> canary_percentage s);
          (ok, ms) = execute_query r use_canary;
          e = (if use_canary then Canary else Stable)
      in s\<lparr>metrics := (metrics s)(e := metrics s e @ [\<lparr>success = ok, latency = ms\<rparr>])\<rparr>)"

definition simulate_traffic :: "nat \<Rightarrow> (nat \<Rightarrow> request) \<Rightarrow> canary_deployment \<Rightarrow> canary_deployment" where
  "simulate_traffic total_reqs rs s = fold simulate_request (map rs [0..<total_reqs]) s"

subsection \<open>The metrics analyzer\<close>

text \<open>
  The subscript \<^verbatim>\<open>xs[i]\<close> of a Python list: an index from \<open>-len\<close> up to \<open>-1\<close> counts
  from the end, and an index outside \<open>-len .. len - 1\<close> raises.
\<close>

definition subscript :: "'a list \<Rightarrow> int \<Rightarrow> py_error + 'a" where
  "subscript xs i =
     (if 0 \<le> i \<and> i < int (length xs) then Inr (xs ! nat i)
      else if - int (length xs) \<le> i \<and> i < 0 then Inr (xs ! nat (int (length xs) + i))
      else Inl IndexError)"

text \<open>Python's \<^verbatim>\<open>int(x)\<close> on a float: truncation towards zero.\<close>

definition py_int :: "real \<Rightarrow> int" where
  "py_int x = (if 0 \<le> x then \<lfloor>x\<rfloor> else \<lceil>x\<rceil>)"

text \<open>
  \<^verbatim>\<open>sorted(latencies)[int(len(latencies) * 0.95)] if latencies else 0\<close> (line 171).
\<close>

definition p95 :: "real list \<Rightarrow> py_error + real" where
  "p95 latencies =
     (if latencies \<noteq> [] then subscript (sort latencies) (py_int (real (length latencies) * 0.95))
      else Inr 0)"

text \<open>
  The body of the loop of \<^verbatim>\<open>analyze_metrics\<close> after the \<^verbatim>\<open>continue\<close> (lines 165-179),
  on the list \<^verbatim>\<open>self.metrics[env]\<close>.
\<close>

definition summarize :: "metric list \<Rightarrow> py_error + summary" where
  "summarize ms =
     (let successes = int (length (filter success ms));
          total = int (length ms);
          rate = (if total > 0 then real_of_int (total - successes) / real_of_int total * 100 else 0);
          latencies = map latency ms;
          avg = (if latencies \<noteq> [] then sum_list latencies / real (length latencies) else 0)
      in case p95 latencies of
           Inl err \<Rightarrow> Inl err
         | Inr p \<Rightarrow> Inr \<lparr>total_requests = total, success_count = successes,
                          error_rate = rate, avg_latency = avg, p95_latency = p\<rparr>)"

fun analyze_loop :: "env list \<Rightarrow> (env \<Rightarrow> metric list) \<Rightarrow> analysis \<Rightarrow> py_error + analysis" where
  "analyze_loop [] m analysis = Inr analysis"
| "analyze_loop (e # es) m analysis =
     (if m e = [] then analyze_loop es m analysis
      else case summarize (m e) of
             Inl err \<Rightarrow> Inl err
           | Inr sm \<Rightarrow> analyze_loop es m (analysis(e \<mapsto> sm)))"

definition analyze_metrics :: "canary_deployment \<Rightarrow> py_error + analysis" where
  "analyze_metrics s = analyze_loop [Stable, Canary] (metrics s) Map.empty"

subsection \<open>The rollout controller\<close>

text \<open>
  \<^verbatim>\<open>run_canary_deployment\<close> (lines 249-333) is one straight-line method with three early
  returns. It is cut here at the banners it prints: \<open>phase_4_5\<close> is the code from
  \<^verbatim>\<open>PHASE 4\<close> to the end (lines 301-333), \<open>phase_3\<close> the code from \<^verbatim>\<open>PHASE 3\<close>
  (lines 283-299) followed by \<open>phase_4_5\<close>, \<open>phase_2\<close> the code from \<^verbatim>\<open>PHASE 2\<close>
  (lines 266-281) followed by \<open>phase_3\<close>. An exception that nothing catches ends the
  run; the journal records it. The lines printed before \<^verbatim>\<open>PHASE 2\<close> and the banners
  are ASCII. \<^verbatim>\<open>time.sleep\<close> is left out.
\<close>

definition phase_4_5 :: "world \<Rightarrow> canary_deployment \<Rightarrow> canary_deployment" where
  "phase_4_5 w s0 =
     (let s = s0\<lparr>metrics := (\<lambda>_. [])\<rparr>;
          s = route_traffic 100 s;
          s = simulate_traffic 200 (traffic w 2) s
      in case analyze_metrics s of
           Inl err \<Rightarrow> emit (Uncaught err) s
         | Inr analysis \<Rightarrow>
             let s = print_metrics analysis ''100% Traffic'' s;
                 s = emit PromoteStable s
             in case print_marked w Check_Mark DeploymentCompleted s of
                  Inl err \<Rightarrow> emit (Uncaught err) s
                | Inr s \<Rightarrow>
                    (case print_marked w Rightwards_Arrow FeaturesListed s of
                       Inl err \<Rightarrow> emit (Uncaught err) s
                     | Inr s \<Rightarrow> s))"

definition phase_3 :: "world \<Rightarrow> canary_deployment \<Rightarrow> canary_deployment" where
  "phase_3 w s0 =
     (let s = s0\<lparr>metrics := (\<lambda>_. [])\<rparr>;
          s = route_traffic 50 s;
          s = simulate_traffic 200 (traffic w 1) s
      in case analyze_metrics s of
           Inl err \<Rightarrow> emit (Uncaught err) s
         | Inr analysis \<Rightarrow>
             let s = print_metrics analysis ''50% Traffic'' s;
                 (rollback, s) = should_rollback analysis s
             in if rollback
                then (case print_marked w Ballot_X DeploymentFailed s of
                        Inl err \<Rightarrow> emit (Uncaught err) s
                      | Inr s \<Rightarrow> rollback_canary s)
                else (case print_marked w Check_Mark (PhaseSuccessful 50) s of
                        Inl err \<Rightarrow> emit (Uncaught err) s
                      | Inr s \<Rightarrow> phase_4_5 w s))"

definition phase_2 :: "world \<Rightarrow> canary_deployment \<Rightarrow> canary_deployment" where
  "phase_2 w s0 =
     (let s = route_traffic 10 s0;
          s = simulate_traffic 200 (traffic w 0) s
      in case analyze_metrics s of
           Inl err \<Rightarrow> emit (Uncaught err) s
         | Inr analysis \<Rightarrow>
             let s = print_metrics analysis ''10% Traffic'' s;
                 (rollback, s) = should_rollback analysis s
             in if rollback
                then (case print_marked w Ballot_X DeploymentFailed s of
                        Inl err \<Rightarrow> emit (Uncaught err) s
                      | Inr s \<Rightarrow> rollback_canary s)
                else (case print_marked w Check_Mark (PhaseSuccessful 10) s of
                        Inl err \<Rightarrow> emit (Uncaught err) s
                      | Inr s \<Rightarrow> phase_3 w s))"

definition run_canary_deployment :: "world \<Rightarrow> canary_deployment \<Rightarrow> canary_deployment" where
  "run_canary_deployment w self =
     (let (connected, s) = connect_all w self
      in if \<not> connected then s
         else phase_2 w (apply_canary_change (setup_databases s)))"

subsection \<open>Reading a journal\<close>

text \<open>The analyses of the stages that ran, in order: one per call of \<^verbatim>\<open>print_metrics\<close>.\<close>

fun reports :: "event list \<Rightarrow> analysis list" where
  "reports [] = []"
| "reports (MetricsReport a ph # evs) = a # reports evs"
| "reports (ev # evs) = reports evs"

text \<open>How often the run sent the rollback and the promotion to a database.\<close>

fun is_rollback :: "event \<Rightarrow> bool" where
  "is_rollback RollbackCanary = True"
| "is_rollback _ = False"

fun is_promotion :: "event \<Rightarrow> bool" where
  "is_promotion PromoteStable = True"
| "is_promotion _ = False"

definition rollbacks :: "event list \<Rightarrow> nat" where
  "rollbacks evs = length (filter is_rollback evs)"

definition promotions :: "event list \<Rightarrow> nat" where
  "promotions evs = length (filter is_promotion evs)"

text \<open>
  What a stage leaves in the journal once the verdict is known (lines 275-281 and
  293-299), followed by \<open>rest\<close> when the run goes on; and what the last two prints leave
  (lines 325-333).
\<close>

definition decided :: "world \<Rightarrow> bool \<Rightarrow> int \<Rightarrow> event list \<Rightarrow> event list" where
  "decided w rollback p rest =
     (if rollback
      then (if stdout_encodes w Ballot_X then [DeploymentFailed, RollbackCanary]
            else [Uncaught UnicodeEncodeError])
      else (if stdout_encodes w Check_Mark then PhaseSuccessful p # rest
            else [Uncaught UnicodeEncodeError]))"

definition closing :: "world \<Rightarrow> event list" where
  "closing w =
     (if stdout_encodes w Check_Mark
      then DeploymentCompleted #
           (if stdout_encodes w Rightwards_Arrow then [FeaturesListed]
            else [Uncaught UnicodeEncodeError])
      else [Uncaught UnicodeEncodeError])"

text \<open>
  The evaluator's verdict on an analysis. The verdict does not depend on the object
  (lemma \<open>should_rollback_verdict\<close> below), so it is read off at \<open>init\<close>.
\<close>

definition verdict :: "analysis \<Rightarrow> bool" where
  "verdict a = fst (should_rollback a init)"

text \<open>What \<^verbatim>\<open>should_rollback\<close> logs for an analysis.\<close>

definition alarm :: "analysis \<Rightarrow> event list" where
  "alarm a = journal (snd (should_rollback a init))"

text \<open>
  The window of one stage taken on its own: the object that \<^verbatim>\<open>simulate_traffic\<close>
  leaves when it starts from the empty dictionary at split \<open>p\<close>.
\<close>

definition fresh_window :: "int \<Rightarrow> (nat \<Rightarrow> request) \<Rightarrow> canary_deployment" where
  "fresh_window p rs = simulate_traffic 200 rs (init\<lparr>canary_percentage := p\<rparr>)"

text \<open>What one request leaves in the window.\<close>

definition outcome :: "request \<Rightarrow> metric" where
  "outcome r = \<lparr>success = query_ok r, latency = elapsed r\<rparr>"

text \<open>The analysis of such a window (\<^verbatim>\<open>analyze_metrics\<close> never raises, see below).\<close>

definition window_analysis :: "int \<Rightarrow> (nat \<Rightarrow> request) \<Rightarrow> analysis" where
  "window_analysis p rs = projr (analyze_metrics (fresh_window p rs))"

text \<open>The variant that serves a request at split \<open>p\<close>.\<close>

definition routed :: "int \<Rightarrow> request \<Rightarrow> env" where
  "routed p r = (if draw r \<le> p then Canary else Stable)"

text \<open>
  The analysis of the first stage. Nothing resets \<^verbatim>\<open>self.metrics\<close> before the first
  stage, so its window starts from what the object holds (the empty lists of
  \<^verbatim>\<open>__init__\<close> on a new object).
\<close>

definition first_analysis :: "world \<Rightarrow> canary_deployment \<Rightarrow> analysis" where
  "first_analysis w self =
     projr (analyze_metrics (simulate_traffic 200 (traffic w 0) (self\<lparr>canary_percentage := 10\<rparr>)))"

subsection \<open>Example inputs\<close>

text \<open>
  Three analyses: a canary at exactly twice the stable error rate and 1.5 times its p95
  latency; a canary with no stable summary beside it; a canary with one error against a
  stable variant with none.
\<close>

definition two_one :: analysis where
  "two_one = [Stable \<mapsto> \<lparr>total_requests = 100, success_count = 99, error_rate = 1,
                            avg_latency = 10, p95_latency = 20\<rparr>,
              Canary \<mapsto> \<lparr>total_requests = 100, success_count = 98, error_rate = 2,
                            avg_latency = 10, p95_latency = 30\<rparr>]"

definition canary_only :: analysis where
  "canary_only = [Canary \<mapsto> \<lparr>total_requests = 200, success_count = 0, error_rate = 100,
                            avg_latency = 900, p95_latency = 1000\<rparr>]"

definition clean_stable :: analysis where
  "clean_stable = [Stable \<mapsto> \<lparr>total_requests = 100, success_count = 100, error_rate = 0,
                            avg_latency = 10, p95_latency = 20\<rparr>,
              Canary \<mapsto> \<lparr>total_requests = 200, success_count = 199, error_rate = 1/2,
                            avg_latency = 10, p95_latency = 20\<rparr>]"

text \<open>An object with four canary outcomes and no stable outcome, and ten outcomes.\<close>

definition four_canary :: canary_deployment where
  "four_canary = init\<lparr>metrics := (\<lambda>_. [])(Canary :=
     [\<lparr>success = True, latency = 10\<rparr>, \<lparr>success = False, latency = 30\<rparr>,
      \<lparr>success = True, latency = 20\<rparr>, \<lparr>success = True, latency = 40\<rparr>])\<rparr>"

definition ten_latencies :: "metric list" where
  "ten_latencies = map (\<lambda>l. \<lparr>success = True, latency = l\<rparr>)
     [100, 20, 30, 40, 50, 60, 70, 80, 90, 10]"

text \<open>Requests whose routing draws run through all of 1..100.\<close>

definition every_draw :: "nat \<Rightarrow> request" where
  "every_draw i = \<lparr>draw = 1 + int (i mod 100), query_ok = even i, elapsed = 5 + real (i mod 7)\<rparr>"

text \<open>
  Three worlds. In each, every other request draws 5 and the rest draw 95. In \<open>calm\<close>
  every query succeeds; in \<open>spiking\<close> the queries that draw 5 fail; in \<open>recovering\<close>
  every query of the first stage fails and every later one succeeds. The standard output
  of all three is UTF-8.
\<close>

definition calm :: world where
  "calm = \<lparr>stable_up = True, canary_up = True,
     traffic = (\<lambda>k i. \<lparr>draw = (if even i then 5 else 95), query_ok = True, elapsed = 10\<rparr>),
     stdout_encodes = (\<lambda>_. True)\<rparr>"

definition spiking :: world where
  "spiking = \<lparr>stable_up = True, canary_up = True,
     traffic = (\<lambda>k i. \<lparr>draw = (if even i then 5 else 95), query_ok = odd i, elapsed = 10\<rparr>),
     stdout_encodes = (\<lambda>_. True)\<rparr>"

definition recovering :: world where
  "recovering = \<lparr>stable_up = True, canary_up = True,
     traffic = (\<lambda>k i. \<lparr>draw = (if even i then 5 else 95), query_ok = (k \<noteq> 0), elapsed = 10\<rparr>),
     stdout_encodes = (\<lambda>_. True)\<rparr>"

text \<open>The world \<open>spiking\<close> on a standard output that is ASCII.\<close>

definition spiking_ascii :: world where
  "spiking_ascii = spiking\<lparr>stdout_encodes := (\<lambda>_. False)\<rparr>"

section \<open>Properties\<close>

subsection \<open>The evaluator reads only its argument\<close>

lemma should_rollback_verdict: "fst (should_rollback a s) = verdict a"
  by (simp add: should_rollback_def verdict_def Let_def)

lemma should_rollback_journal: "snd (should_rollback a s) = s\<lparr>journal := journal s @ alarm a\<rparr>"
  by (simp add: should_rollback_def alarm_def Let_def emit_def init_def)

subsection \<open>The analyzer always returns\<close>

lemma all_env: "(\<forall>e::env. P e) \<longleftrightarrow> P Stable \<and> P Canary"
  by (metis env.exhaust)

lemma rank_in_range:
  assumes "0 < n"
  shows "py_int (real n * 0.95) = \<lfloor>real n * 0.95\<rfloor>"
    and "0 \<le> py_int (real n * 0.95)"
    and "py_int (real n * 0.95) < int n"
    and "nat \<lfloor>real n * 0.95\<rfloor> < n"
proof -
  show eq: "py_int (real n * 0.95) = \<lfloor>real n * 0.95\<rfloor>"
    by (simp add: py_int_def)
  show "0 \<le> py_int (real n * 0.95)"
    by (simp add: py_int_def)
  have "real n * 0.95 < real n" using assms by simp
  then have "\<lfloor>real n * 0.95\<rfloor> < int n"
    by (simp add: floor_less_iff)
  with eq show "py_int (real n * 0.95) < int n" by simp
  have "0 \<le> \<lfloor>real n * 0.95\<rfloor>" by simp
  with \<open>\<lfloor>real n * 0.95\<rfloor> < int n\<close> show "nat \<lfloor>real n * 0.95\<rfloor> < n"
    by linarith
qed

lemma p95_returns:
  assumes "latencies \<noteq> []"
  shows "p95 latencies = Inr (sort latencies ! nat \<lfloor>real (length latencies) * 0.95\<rfloor>)"
proof -
  have "0 < length latencies" using assms by simp
  from rank_in_range [OF this] assms show ?thesis
    unfolding p95_def subscript_def by simp
qed

lemma summarize_returns:
  "ms \<noteq> [] \<Longrightarrow>
     summarize ms = Inr
       \<lparr>total_requests = int (length ms),
        success_count = int (length (filter success ms)),
        error_rate = real_of_int (int (length ms) - int (length (filter success ms)))
                       / real_of_int (int (length ms)) * 100,
        avg_latency = sum_list (map latency ms) / real (length ms),
        p95_latency = sort (map latency ms) ! nat \<lfloor>real (length ms) * 0.95\<rfloor>\<rparr>"
  by (simp add: summarize_def Let_def p95_returns)

lemma analyze_metrics_returns:
  "analyze_metrics s =
     Inr (\<lambda>e. if metrics s e = [] then None else Some (projr (summarize (metrics s e))))"
  by (simp add: analyze_metrics_def summarize_returns fun_eq_iff all_env)

subsection \<open>What a stage leaves in the window and in the journal\<close>

lemma simulate_request_eq:
  "simulate_request r s =
     s\<lparr>metrics := (metrics s)(routed (canary_percentage s) r :=
                      metrics s (routed (canary_percentage s) r) @ [outcome r])\<rparr>"
  by (simp add: simulate_request_def execute_query_def routed_def outcome_def Let_def)

lemma simulate_request_fields [simp]:
  "journal (simulate_request r s) = journal s"
  "canary_percentage (simulate_request r s) = canary_percentage s"
  "stable_conn (simulate_request r s) = stable_conn s"
  "canary_conn (simulate_request r s) = canary_conn s"
  by (simp_all add: simulate_request_eq)

lemma fold_simulate_fields [simp]:
  "journal (fold simulate_request rs s) = journal s"
  "canary_percentage (fold simulate_request rs s) = canary_percentage s"
  "stable_conn (fold simulate_request rs s) = stable_conn s"
  "canary_conn (fold simulate_request rs s) = canary_conn s"
  by (induction rs arbitrary: s) simp_all

lemma fold_simulate_metrics:
  "metrics (fold simulate_request rs s) e =
     metrics s e @ map outcome (filter (\<lambda>r. routed (canary_percentage s) r = e) rs)"
proof (induction rs arbitrary: s)
  case Nil
  show ?case by simp
next
  case (Cons r rs)
  have "metrics (fold simulate_request (r # rs) s) e
          = metrics (fold simulate_request rs (simulate_request r s)) e"
    by simp
  also have "\<dots> = metrics (simulate_request r s) e @
      map outcome (filter (\<lambda>x. routed (canary_percentage s) x = e) rs)"
    by (simp add: Cons.IH)
  also have "\<dots> = metrics s e @
      map outcome (filter (\<lambda>x. routed (canary_percentage s) x = e) (r # rs))"
    by (simp add: simulate_request_eq)
  finally show ?case .
qed

lemma metrics_simulate_traffic:
  "metrics (simulate_traffic n rs s) e =
     metrics s e @ map outcome (filter (\<lambda>r. routed (canary_percentage s) r = e) (map rs [0..<n]))"
  by (simp add: simulate_traffic_def fold_simulate_metrics)

lemma simulate_traffic_fields [simp]:
  "journal (simulate_traffic n rs s) = journal s"
  "canary_percentage (simulate_traffic n rs s) = canary_percentage s"
  "stable_conn (simulate_traffic n rs s) = stable_conn s"
  "canary_conn (simulate_traffic n rs s) = canary_conn s"
  by (simp_all add: simulate_traffic_def)

lemma metrics_fresh_window:
  "metrics (fresh_window p rs) e =
     map outcome (filter (\<lambda>r. routed p r = e) (map rs [0..<200]))"
  by (simp add: fresh_window_def metrics_simulate_traffic init_def)

lemma analyze_metrics_cong:
  "metrics s = metrics s' \<Longrightarrow> analyze_metrics s = analyze_metrics s'"
  by (simp add: analyze_metrics_def)

lemma analyze_fresh_window:
  "analyze_metrics (fresh_window p rs) = Inr (window_analysis p rs)"
  by (simp add: window_analysis_def analyze_metrics_returns)

lemma analyze_stage:
  "analyze_metrics (simulate_traffic 200 rs (route_traffic p (s\<lparr>metrics := (\<lambda>_. [])\<rparr>)))
     = Inr (window_analysis p rs)"
proof -
  have "metrics (simulate_traffic 200 rs (route_traffic p (s\<lparr>metrics := (\<lambda>_. [])\<rparr>)))
          = metrics (fresh_window p rs)"
    by (simp add: metrics_simulate_traffic metrics_fresh_window route_traffic_def emit_def fun_eq_iff)
  then show ?thesis
    by (simp add: analyze_metrics_cong [OF \<open>metrics _ = metrics _\<close>] analyze_fresh_window)
qed

lemma journal_emit [simp]: "journal (emit ev s) = journal s @ [ev]"
  by (simp add: emit_def)

lemma journal_route_traffic [simp]:
  "journal (route_traffic p s) = journal s @ [TrafficRouting p]"
  by (simp add: route_traffic_def)

lemma journal_rollback_canary [simp]:
  "journal (rollback_canary s) = journal s @ [RollbackCanary]"
  by (simp add: rollback_canary_def)

lemma journal_print_metrics [simp]:
  "journal (print_metrics a ph s) = journal s @ [MetricsReport a ph]"
  by (simp add: print_metrics_def)

lemma phase_4_5_journal:
  "journal (phase_4_5 w s0) = journal s0 @
     [TrafficRouting 100, MetricsReport (window_analysis 100 (traffic w 2)) ''100% Traffic'',
      PromoteStable] @ closing w"
  by (simp add: phase_4_5_def analyze_stage print_marked_def closing_def)

lemma phase_3_journal:
  "journal (phase_3 w s0) = journal s0 @
     [TrafficRouting 50, MetricsReport (window_analysis 50 (traffic w 1)) ''50% Traffic''] @
     alarm (window_analysis 50 (traffic w 1)) @
     decided w (verdict (window_analysis 50 (traffic w 1))) 50
       ([TrafficRouting 100, MetricsReport (window_analysis 100 (traffic w 2)) ''100% Traffic'',
         PromoteStable] @ closing w)"
  by (simp add: phase_3_def analyze_stage print_marked_def decided_def
      phase_4_5_journal split_beta should_rollback_verdict should_rollback_journal)

lemma phase_2_journal:
  "journal (phase_2 w s0) = journal s0 @
     [TrafficRouting 10,
      MetricsReport (projr (analyze_metrics (simulate_traffic 200 (traffic w 0) (route_traffic 10 s0))))
        ''10% Traffic''] @
     alarm (projr (analyze_metrics (simulate_traffic 200 (traffic w 0) (route_traffic 10 s0)))) @
     decided w
       (verdict (projr (analyze_metrics (simulate_traffic 200 (traffic w 0) (route_traffic 10 s0))))) 10
       ([TrafficRouting 50, MetricsReport (window_analysis 50 (traffic w 1)) ''50% Traffic''] @
        alarm (window_analysis 50 (traffic w 1)) @
        decided w (verdict (window_analysis 50 (traffic w 1))) 50
          ([TrafficRouting 100, MetricsReport (window_analysis 100 (traffic w 2)) ''100% Traffic'',
            PromoteStable] @ closing w))"
proof -
  obtain a where a: "analyze_metrics (simulate_traffic 200 (traffic w 0) (route_traffic 10 s0)) = Inr a"
    by (simp add: analyze_metrics_returns)
  show ?thesis
    by (simp add: phase_2_def a print_marked_def decided_def
      phase_3_journal split_beta should_rollback_verdict should_rollback_journal)
qed

lemma reports_append [simp]: "reports (xs @ ys) = reports xs @ reports ys"
  by (induction xs rule: reports.induct) simp_all

lemma rollbacks_append [simp]: "rollbacks (xs @ ys) = rollbacks xs + rollbacks ys"
  by (simp add: rollbacks_def)

lemma promotions_append [simp]: "promotions (xs @ ys) = promotions xs + promotions ys"
  by (simp add: promotions_def)

lemma alarm_cases: "alarm a = [] \<or> (\<exists>x. alarm a = [Warned x])"
  by (simp add: alarm_def should_rollback_def Let_def init_def emit_def)

lemma alarm_silent [simp]:
  "reports (alarm a) = []" "rollbacks (alarm a) = 0" "promotions (alarm a) = 0"
  using alarm_cases [of a] by (auto simp add: rollbacks_def promotions_def)

lemma journal_setup [simp]:
  "journal (setup_databases s) = journal s @ [DatabasesInitialized]"
  "journal (apply_canary_change s) = journal s @ [ApplyCanaryChange]"
  by (simp_all add: setup_databases_def apply_canary_change_def)

lemma first_analysis_eq:
  "analyze_metrics (simulate_traffic 200 (traffic w 0)
     (route_traffic 10 (apply_canary_change (setup_databases (emit Connected
        (self\<lparr>stable_conn := True, canary_conn := True\<rparr>))))))
   = Inr (first_analysis w self)"
proof -
  have "metrics (simulate_traffic 200 (traffic w 0)
     (route_traffic 10 (apply_canary_change (setup_databases (emit Connected
        (self\<lparr>stable_conn := True, canary_conn := True\<rparr>))))))
    = metrics (simulate_traffic 200 (traffic w 0) (self\<lparr>canary_percentage := 10\<rparr>))"
    by (simp add: metrics_simulate_traffic route_traffic_def apply_canary_change_def
        setup_databases_def emit_def fun_eq_iff)
  from analyze_metrics_cong [OF this] show ?thesis
    by (simp add: first_analysis_def analyze_metrics_returns)
qed

lemma run_journal:
  "journal (run_canary_deployment w self) = journal self @
     (if stable_up w \<and> canary_up w then
        [Connected, DatabasesInitialized, ApplyCanaryChange, TrafficRouting 10,
         MetricsReport (first_analysis w self) ''10% Traffic''] @
        alarm (first_analysis w self) @
        decided w (verdict (first_analysis w self)) 10
          ([TrafficRouting 50, MetricsReport (window_analysis 50 (traffic w 1)) ''50% Traffic''] @
           alarm (window_analysis 50 (traffic w 1)) @
           decided w (verdict (window_analysis 50 (traffic w 1))) 50
             ([TrafficRouting 100,
               MetricsReport (window_analysis 100 (traffic w 2)) ''100% Traffic'',
               PromoteStable] @ closing w))
      else [ConnectionFailed])"
proof (cases "stable_up w \<and> canary_up w")
  case False
  then show ?thesis
    by (auto simp add: run_canary_deployment_def connect_all_def)
next
  case True
  then have "run_canary_deployment w self =
      phase_2 w (apply_canary_change (setup_databases (emit Connected
        (self\<lparr>stable_conn := True, canary_conn := True\<rparr>))))"
    by (simp add: run_canary_deployment_def connect_all_def)
  then show ?thesis
    using True
    by (simp add: phase_2_journal first_analysis_eq)
qed

subsection \<open>Windows and their summaries\<close>

lemma window_analysis_eq:
  "window_analysis p rs e =
     (if metrics (fresh_window p rs) e = [] then None
      else Some (projr (summarize (metrics (fresh_window p rs) e))))"
  by (simp add: window_analysis_def analyze_metrics_returns)

lemma first_analysis_at:
  "first_analysis w self e =
     (if metrics (simulate_traffic 200 (traffic w 0) (self\<lparr>canary_percentage := 10\<rparr>)) e = [] then None
      else Some (projr (summarize
        (metrics (simulate_traffic 200 (traffic w 0) (self\<lparr>canary_percentage := 10\<rparr>)) e))))"
  by (simp add: first_analysis_def analyze_metrics_returns)

lemma first_analysis_fresh:
  "metrics self = (\<lambda>_. []) \<Longrightarrow> first_analysis w self = window_analysis 10 (traffic w 0)"
  by (simp add: fun_eq_iff first_analysis_at window_analysis_eq metrics_simulate_traffic
      metrics_fresh_window)

lemma verdict_absent: "a Stable = None \<or> a Canary = None \<Longrightarrow> \<not> verdict a"
  by (auto simp add: verdict_def should_rollback_def)

lemma full_split_stable_empty:
  assumes "\<forall>i<n. draw (rs i) \<le> 100"
  shows "filter (\<lambda>r. routed 100 r = Stable) (map rs [0..<n]) = []"
    and "filter (\<lambda>r. routed 100 r = Canary) (map rs [0..<n]) = map rs [0..<n]"
  using assms by (auto simp add: routed_def filter_empty_conv filter_id_conv)

lemma verdict_full_rollout:
  "\<forall>i<200. draw (rs i) \<le> 100 \<Longrightarrow> \<not> verdict (window_analysis 100 rs)"
  by (rule verdict_absent)
     (simp add: window_analysis_eq metrics_fresh_window full_split_stable_empty)

lemma summarize_all_success:
  assumes "ms \<noteq> []" and "\<forall>m\<in>set ms. success m"
  shows "error_rate (projr (summarize ms)) = 0"
proof -
  from assms(2) have "filter success ms = ms" by (simp add: filter_id_conv)
  with assms(1) show ?thesis by (simp add: summarize_returns)
qed

lemma summarize_all_failure:
  assumes "ms \<noteq> []" and "\<forall>m\<in>set ms. \<not> success m"
  shows "error_rate (projr (summarize ms)) = 100"
proof -
  from assms(2) have "filter success ms = []" by (simp add: filter_empty_conv)
  with assms(1) show ?thesis by (simp add: summarize_returns)
qed

lemma summarize_same_latency:
  assumes "ms \<noteq> []" and "\<forall>m\<in>set ms. latency m = c"
  shows "p95_latency (projr (summarize ms)) = c"
proof -
  let ?xs = "sort (map latency ms)"
  let ?r = "nat \<lfloor>real (length ms) * 0.95\<rfloor>"
  have "0 < length ms" using assms(1) by simp
  from rank_in_range(4) [OF this] have "?r < length ?xs" by simp
  then have "?xs ! ?r \<in> set ?xs" by (rule nth_mem)
  then have "?xs ! ?r \<in> latency ` set ms" by simp
  with assms(2) have "?xs ! ?r = c" by auto
  with assms(1) show ?thesis by (simp add: summarize_returns)
qed

lemma verdict_present:
  "a Stable = Some st \<Longrightarrow> a Canary = Some c \<Longrightarrow>
     verdict a \<longleftrightarrow> error_rate c > error_rate st * 2 \<or> p95_latency c > p95_latency st * 1.5"
  by (simp add: verdict_def should_rollback_def Let_def)

lemma set_fresh_window:
  "m \<in> set (metrics (fresh_window p rs) e) \<Longrightarrow> \<exists>i<200. m = outcome (rs i)"
  by (auto simp add: metrics_fresh_window)

lemma verdict_uniform_window:
  assumes u: "\<forall>i<200. query_ok (rs i) = b \<and> elapsed (rs i) = c" and c: "0 \<le> c"
  shows "\<not> verdict (window_analysis p rs)"
proof (cases "window_analysis p rs Stable = None \<or> window_analysis p rs Canary = None")
  case True
  then show ?thesis by (rule verdict_absent)
next
  case False
  let ?S = "metrics (fresh_window p rs) Stable" and ?C = "metrics (fresh_window p rs) Canary"
  from False have ne: "?S \<noteq> []" "?C \<noteq> []"
    by (auto simp add: window_analysis_eq split: if_splits)
  have all: "\<And>e m. m \<in> set (metrics (fresh_window p rs) e) \<Longrightarrow> success m = b \<and> latency m = c"
    using u by (auto dest!: set_fresh_window simp add: outcome_def)
  have lat: "p95_latency (projr (summarize ?S)) = c" "p95_latency (projr (summarize ?C)) = c"
    using ne all by (simp_all add: summarize_same_latency)
  have rate: "error_rate (projr (summarize ?S)) = (if b then 0 else 100)"
             "error_rate (projr (summarize ?C)) = (if b then 0 else 100)"
    using ne all by (simp_all add: summarize_all_success summarize_all_failure)
  have "window_analysis p rs Stable = Some (projr (summarize ?S))"
       "window_analysis p rs Canary = Some (projr (summarize ?C))"
    using ne by (simp_all add: window_analysis_eq)
  from verdict_present [OF this] lat rate c show ?thesis by simp
qed

subsection \<open>What a run leaves in the journal\<close>

lemma rollbacks_simps [simp]:
  "rollbacks [] = 0"
  "rollbacks (ev # evs) = (if is_rollback ev then 1 else 0) + rollbacks evs"
  by (simp_all add: rollbacks_def)

lemma promotions_simps [simp]:
  "promotions [] = 0"
  "promotions (ev # evs) = (if is_promotion ev then 1 else 0) + promotions evs"
  by (simp_all add: promotions_def)

lemma closing_silent [simp]:
  "reports (closing w) = []" "rollbacks (closing w) = 0" "promotions (closing w) = 0"
  by (simp_all add: closing_def)

lemma closing_not_empty [simp]: "closing w \<noteq> []"
  by (simp add: closing_def)

lemma last_closing: "last (closing w) \<noteq> RollbackCanary"
  by (simp add: closing_def)

lemma decided_counts [simp]:
  "reports (decided w b p rest) =
     (if \<not> b \<and> stdout_encodes w Check_Mark then reports rest else [])"
  "promotions (decided w b p rest) =
     (if \<not> b \<and> stdout_encodes w Check_Mark then promotions rest else 0)"
  "rollbacks (decided w b p rest) =
     (if b then (if stdout_encodes w Ballot_X then 1 else 0)
      else if stdout_encodes w Check_Mark then rollbacks rest else 0)"
  by (simp_all add: decided_def)

lemma decided_not_empty [simp]: "decided w b p rest \<noteq> []"
  by (simp add: decided_def)

lemma last_decided_rollback:
  "last (decided w True p rest) =
     (if stdout_encodes w Ballot_X then RollbackCanary else Uncaught UnicodeEncodeError)"
  by (simp add: decided_def)

lemma run_reports:
  "journal self = [] \<Longrightarrow>
   reports (journal (run_canary_deployment w self)) =
     (if stable_up w \<and> canary_up w then
        first_analysis w self #
        (if verdict (first_analysis w self) \<or> \<not> stdout_encodes w Check_Mark then []
         else window_analysis 50 (traffic w 1) #
           (if verdict (window_analysis 50 (traffic w 1)) then []
            else [window_analysis 100 (traffic w 2)]))
      else [])"
  by (simp add: run_journal)

lemma run_promotions:
  "journal self = [] \<Longrightarrow>
   promotions (journal (run_canary_deployment w self)) =
     (if stable_up w \<and> canary_up w \<and> stdout_encodes w Check_Mark
         \<and> \<not> verdict (first_analysis w self)
         \<and> \<not> verdict (window_analysis 50 (traffic w 1)) then 1 else 0)"
  by (simp add: run_journal)

lemma run_rollbacks:
  "journal self = [] \<Longrightarrow>
   rollbacks (journal (run_canary_deployment w self)) =
     (if stable_up w \<and> canary_up w \<and> stdout_encodes w Ballot_X \<and>
         (verdict (first_analysis w self) \<or>
          stdout_encodes w Check_Mark \<and> verdict (window_analysis 50 (traffic w 1)))
      then 1 else 0)"
  by (simp add: run_journal)

lemma run_last_rollback:
  "journal self = [] \<Longrightarrow> stable_up w \<and> canary_up w \<Longrightarrow>
   verdict (first_analysis w self) \<or>
     stdout_encodes w Check_Mark \<and> verdict (window_analysis 50 (traffic w 1)) \<Longrightarrow>
   last (journal (run_canary_deployment w self)) =
     (if stdout_encodes w Ballot_X then RollbackCanary else Uncaught UnicodeEncodeError)"
  by (auto simp add: run_journal decided_def)

subsection \<open>The example runs\<close>

lemma window_present:
  "i < 200 \<Longrightarrow> routed p (rs i) = e \<Longrightarrow> metrics (fresh_window p rs) e \<noteq> []"
  by (auto simp add: metrics_fresh_window filter_empty_conv)

lemma window_member:
  "m \<in> set (metrics (fresh_window p rs) e) \<Longrightarrow> \<exists>i<200. m = outcome (rs i) \<and> routed p (rs i) = e"
  by (auto simp add: metrics_fresh_window)

lemma journal_init [simp]: "journal init = []" and metrics_init [simp]: "metrics init = (\<lambda>_. [])"
  by (simp_all add: init_def)

lemma calm_passes:
  "\<not> verdict (first_analysis calm init)" "\<not> verdict (window_analysis 50 (traffic calm 1))"
proof -
  have u: "\<forall>i<200. query_ok (traffic calm k i) = True \<and> elapsed (traffic calm k i) = 10" for k
    by (simp add: calm_def)
  show "\<not> verdict (first_analysis calm init)"
    by (simp add: first_analysis_fresh verdict_uniform_window [OF u])
  show "\<not> verdict (window_analysis 50 (traffic calm 1))"
    by (simp add: verdict_uniform_window [OF u])
qed

lemma spiking_fails: "verdict (first_analysis spiking init)"
proof -
  let ?rs = "traffic spiking 0"
  let ?S = "metrics (fresh_window 10 ?rs) Stable" and ?C = "metrics (fresh_window 10 ?rs) Canary"
  have ne: "?C \<noteq> []" "?S \<noteq> []"
    by (rule window_present [of 0], simp, simp add: spiking_def routed_def)
       (rule window_present [of 1], simp, simp add: spiking_def routed_def)
  have "\<forall>m\<in>set ?C. \<not> success m"
    by (auto dest!: window_member simp add: spiking_def routed_def outcome_def split: if_splits)
  with ne have c: "error_rate (projr (summarize ?C)) = 100"
    by (simp add: summarize_all_failure)
  have "\<forall>m\<in>set ?S. success m"
    by (auto dest!: window_member simp add: spiking_def routed_def outcome_def split: if_splits)
  with ne have s: "error_rate (projr (summarize ?S)) = 0"
    by (simp add: summarize_all_success)
  have "window_analysis 10 ?rs Stable = Some (projr (summarize ?S))"
       "window_analysis 10 ?rs Canary = Some (projr (summarize ?C))"
    using ne by (simp_all add: window_analysis_eq)
  from verdict_present [OF this] c s show ?thesis
    by (simp add: first_analysis_fresh)
qed

lemma recovering_first_passes: "\<not> verdict (first_analysis recovering init)"
proof -
  have u: "\<forall>i<200. query_ok (traffic recovering 0 i) = False \<and> elapsed (traffic recovering 0 i) = 10"
    by (simp add: recovering_def)
  show ?thesis
    by (simp add: first_analysis_fresh verdict_uniform_window [OF u])
qed

subsection \<open>Claims about the rollback evaluator\<close>

text \<open>
  Claim C2. When both summaries are present, \<^verbatim>\<open>should_rollback\<close> returns true exactly
  when the canary error rate exceeds twice the stable error rate or the canary p95 latency
  exceeds 1.5 times the stable p95 latency. Both comparisons are strict: at a canary error
  rate of exactly twice the stable one, with the latency check silent, the result is false.
\<close>

theorem should_rollback_thresholds:
  "a Stable = Some st \<Longrightarrow> a Canary = Some c \<Longrightarrow>
     (fst (should_rollback a s) \<longleftrightarrow>
        error_rate c > error_rate st * 2 \<or> p95_latency c > p95_latency st * 1.5) \<and>
     (error_rate c = error_rate st * 2 \<and> \<not> p95_latency c > p95_latency st * 1.5
        \<longrightarrow> \<not> fst (should_rollback a s))"
  by (simp add: should_rollback_def Let_def)

theorem should_rollback_thresholds_witness:
  "two_one Stable = Some \<lparr>total_requests = 100, success_count = 99, error_rate = 1,
                            avg_latency = 10, p95_latency = 20\<rparr> \<and>
   two_one Canary = Some \<lparr>total_requests = 100, success_count = 98, error_rate = 2,
                            avg_latency = 10, p95_latency = 30\<rparr> \<and>
   \<not> fst (should_rollback two_one init)"
  using should_rollback_thresholds [of two_one
      "\<lparr>total_requests = 100, success_count = 99, error_rate = 1, avg_latency = 10, p95_latency = 20\<rparr>"
      "\<lparr>total_requests = 100, success_count = 98, error_rate = 2, avg_latency = 10, p95_latency = 30\<rparr>"
      init]
  by (simp add: two_one_def)

text \<open>
  Claim C6. When the stable summary or the canary summary is absent, \<^verbatim>\<open>should_rollback\<close>
  returns false and leaves the object as it was: no comparison is made and nothing is
  logged.
\<close>

theorem should_rollback_absent:
  "a Stable = None \<or> a Canary = None \<Longrightarrow> should_rollback a s = (False, s)"
  by (auto simp add: should_rollback_def)

theorem should_rollback_absent_witness:
  "canary_only Stable = None \<and> should_rollback canary_only init = (False, init)"
  using should_rollback_absent [of canary_only init]
  by (simp add: canary_only_def)

text \<open>
  Claim C7. With both summaries present and a stable error rate of 0, any canary error rate
  above 0 makes \<^verbatim>\<open>should_rollback\<close> return true.
\<close>

theorem should_rollback_zero_stable:
  "a Stable = Some st \<Longrightarrow> a Canary = Some c \<Longrightarrow> error_rate st = 0 \<Longrightarrow> error_rate c > 0
     \<Longrightarrow> fst (should_rollback a s)"
  by (simp add: should_rollback_def Let_def)

theorem should_rollback_zero_stable_witness:
  "error_rate (the (clean_stable Stable)) = 0 \<and> error_rate (the (clean_stable Canary)) > 0 \<and>
   fst (should_rollback clean_stable init)"
  using should_rollback_zero_stable [of clean_stable
      "\<lparr>total_requests = 100, success_count = 100, error_rate = 0, avg_latency = 10, p95_latency = 20\<rparr>"
      "\<lparr>total_requests = 200, success_count = 199, error_rate = 1/2, avg_latency = 10, p95_latency = 20\<rparr>"
      init]
  by (simp add: clean_stable_def)

text \<open>
  Claim C9. The boolean that \<^verbatim>\<open>should_rollback\<close> returns is a function of the analysis
  alone: it is the same from any two objects, and the same when the call is repeated on the
  object the first call left. The call changes nothing that a later decision reads: the
  metrics, the traffic split and the connections stay as they were, and the only trace is
  the warnings appended to the log.
\<close>

theorem should_rollback_pure:
  "fst (should_rollback a s) = fst (should_rollback a s') \<and>
   (\<exists>ws. snd (should_rollback a s) = s\<lparr>journal := journal s @ map Warned ws\<rparr>) \<and>
   metrics (snd (should_rollback a s)) = metrics s \<and>
   canary_percentage (snd (should_rollback a s)) = canary_percentage s \<and>
   stable_conn (snd (should_rollback a s)) = stable_conn s \<and>
   canary_conn (snd (should_rollback a s)) = canary_conn s \<and>
   fst (should_rollback a (snd (should_rollback a s))) = fst (should_rollback a s)"
proof -
  have 1: "fst (should_rollback a s) = fst (should_rollback a s')"
    by (simp add: should_rollback_verdict)
  have 2: "\<exists>ws. snd (should_rollback a s) = s\<lparr>journal := journal s @ map Warned ws\<rparr>"
  proof (cases "fst (should_rollback a s)")
    case False
    then have "snd (should_rollback a s) = s\<lparr>journal := journal s @ map Warned []\<rparr>"
      by (auto simp add: should_rollback_def Let_def split: if_splits)
    then show ?thesis by blast
  next
    case True
    then have "snd (should_rollback a s) = s\<lparr>journal := journal s @ map Warned
        [if error_rate (the (a Canary)) > error_rate (the (a Stable)) * 2
         then ErrorRateSpike (error_rate (the (a Canary))) (error_rate (the (a Stable)))
         else LatencyDegradation (p95_latency (the (a Canary))) (p95_latency (the (a Stable)))]\<rparr>"
      by (auto simp add: should_rollback_def Let_def emit_def split: if_splits)
    then show ?thesis by blast
  qed
  have 3: "fst (should_rollback a (snd (should_rollback a s))) = fst (should_rollback a s)"
    by (simp add: should_rollback_verdict)
  from 2 obtain ws where "snd (should_rollback a s) = s\<lparr>journal := journal s @ map Warned ws\<rparr>" ..
  with 1 2 3 show ?thesis by simp
qed

theorem should_rollback_pure_witness:
  "fst (should_rollback clean_stable init) = fst (should_rollback clean_stable (emit Connected init)) \<and>
   metrics (snd (should_rollback clean_stable init)) = metrics init \<and>
   canary_percentage (snd (should_rollback clean_stable init)) = 0"
  using should_rollback_pure [of clean_stable init "emit Connected init"]
  by (simp add: init_def)

subsection \<open>Claims about the metrics analyzer\<close>

text \<open>
  Claim C4. \<^verbatim>\<open>analyze_metrics\<close> always returns, and its result has no entry for a
  variant exactly when that variant has no recorded outcome; a summary that is present
  never has a total of zero. In every summary present, the error rate is
  \<open>(total - success_count) / total * 100\<close> and the average latency is the mean of the
  recorded latencies.
\<close>

theorem analyze_metrics_omits_empty:
  "\<exists>a. analyze_metrics s = Inr a \<and>
     (\<forall>e. a e = None \<longleftrightarrow> metrics s e = []) \<and>
     (\<forall>e sm. a e = Some sm \<longrightarrow>
        0 < total_requests sm \<and>
        total_requests sm = int (length (metrics s e)) \<and>
        success_count sm = int (length (filter success (metrics s e))) \<and>
        error_rate sm = real_of_int (total_requests sm - success_count sm)
                          / real_of_int (total_requests sm) * 100 \<and>
        avg_latency sm = sum_list (map latency (metrics s e)) / real (length (metrics s e)))"
  by (simp add: analyze_metrics_returns summarize_returns split: if_splits)

theorem analyze_metrics_omits_empty_witness:
  "\<exists>a. analyze_metrics four_canary = Inr a \<and> a Stable = None \<and>
     (\<exists>sm. a Canary = Some sm \<and> total_requests sm = 4 \<and> success_count sm = 3 \<and>
        error_rate sm = 25 \<and> avg_latency sm = 25)"
proof -
  from analyze_metrics_omits_empty [of four_canary] obtain a where
    a: "analyze_metrics four_canary = Inr a"
    and none: "\<forall>e. a e = None \<longleftrightarrow> metrics four_canary e = []"
    and some: "\<forall>e sm. a e = Some sm \<longrightarrow>
        0 < total_requests sm \<and>
        total_requests sm = int (length (metrics four_canary e)) \<and>
        success_count sm = int (length (filter success (metrics four_canary e))) \<and>
        error_rate sm = real_of_int (total_requests sm - success_count sm)
                          / real_of_int (total_requests sm) * 100 \<and>
        avg_latency sm = sum_list (map latency (metrics four_canary e))
                           / real (length (metrics four_canary e))"
    by blast
  have st: "a Stable = None"
    using none by (simp add: four_canary_def init_def)
  have "a Canary \<noteq> None"
    using none by (simp add: four_canary_def init_def)
  then obtain sm where sm: "a Canary = Some sm" by blast
  from some sm have
    "total_requests sm = 4 \<and> success_count sm = 3 \<and> error_rate sm = 25 \<and> avg_latency sm = 25"
    by (simp add: four_canary_def init_def)
  with a st sm show ?thesis by blast
qed

text \<open>
  Claim C5. For a non-empty list of outcomes of length \<open>n\<close>, the p95 latency is the
  element of the ascending-sorted latencies at index \<open>floor (0.95 * n)\<close>, counted from 0;
  the index is within the list, so the subscript of line 171 never raises. For the ten
  latencies 10, 20, ..., 100 the index is 9 and the result is 100, the maximum.
\<close>

theorem p95_nearest_rank:
  "ms \<noteq> [] \<Longrightarrow>
     nat \<lfloor>0.95 * real (length ms)\<rfloor> < length ms \<and>
     p95 (map latency ms) = Inr (sort (map latency ms) ! nat \<lfloor>0.95 * real (length ms)\<rfloor>) \<and>
     (\<exists>sm. summarize ms = Inr sm \<and>
        p95_latency sm = sort (map latency ms) ! nat \<lfloor>0.95 * real (length ms)\<rfloor>)"
proof -
  assume ne: "ms \<noteq> []"
  then have pos: "0 < length ms" by simp
  have r: "nat \<lfloor>0.95 * real (length ms)\<rfloor> < length ms"
    using rank_in_range(4) [OF pos] by (simp add: mult.commute)
  have p: "p95 (map latency ms) = Inr (sort (map latency ms) ! nat \<lfloor>0.95 * real (length ms)\<rfloor>)"
    using p95_returns [of "map latency ms"] ne by (simp add: mult.commute)
  have s: "\<exists>sm. summarize ms = Inr sm \<and>
        p95_latency sm = sort (map latency ms) ! nat \<lfloor>0.95 * real (length ms)\<rfloor>"
    using summarize_returns [OF ne] by (simp add: mult.commute)
  from r p s show ?thesis by blast
qed

theorem p95_nearest_rank_witness:
  "ten_latencies \<noteq> [] \<and> nat \<lfloor>0.95 * real (length ten_latencies)\<rfloor> = 9 \<and>
   p95 (map latency ten_latencies) = Inr 100 \<and>
   (\<exists>sm. summarize ten_latencies = Inr sm \<and> p95_latency sm = 100)"
  using p95_nearest_rank [of ten_latencies]
  by (simp add: ten_latencies_def)

subsection \<open>Claims about the traffic split and the controller\<close>

text \<open>
  Claim C10. At a traffic split of 100 every request is routed to the canary, whatever
  \<^verbatim>\<open>random.randint(1, 100)\<close> draws. Starting from an empty stable list, the stable list
  is still empty after \<^verbatim>\<open>simulate_traffic\<close> and every outcome is in the canary list; the
  analysis then has no stable summary, and \<^verbatim>\<open>should_rollback\<close> returns false on it.
\<close>

theorem full_split_never_rolls_back:
  "canary_percentage s = 100 \<Longrightarrow> metrics s Stable = [] \<Longrightarrow>
   \<forall>i<n. 1 \<le> draw (rs i) \<and> draw (rs i) \<le> 100 \<Longrightarrow>
     metrics (simulate_traffic n rs s) Stable = [] \<and>
     metrics (simulate_traffic n rs s) Canary = metrics s Canary @ map (\<lambda>i. outcome (rs i)) [0..<n] \<and>
     (\<exists>a. analyze_metrics (simulate_traffic n rs s) = Inr a \<and> a Stable = None \<and>
          should_rollback a (simulate_traffic n rs s) = (False, simulate_traffic n rs s))"
proof -
  assume p: "canary_percentage s = 100" and e: "metrics s Stable = []"
    and d: "\<forall>i<n. 1 \<le> draw (rs i) \<and> draw (rs i) \<le> 100"
  let ?s = "simulate_traffic n rs s"
  from d have d': "\<forall>i<n. draw (rs i) \<le> 100" by simp
  have st: "metrics ?s Stable = []"
    by (simp add: metrics_simulate_traffic p e full_split_stable_empty(1) [OF d'])
  have ca: "metrics ?s Canary = metrics s Canary @ map (\<lambda>i. outcome (rs i)) [0..<n]"
    by (simp add: metrics_simulate_traffic p full_split_stable_empty(2) [OF d'] comp_def)
  obtain a where a: "analyze_metrics ?s = Inr a" and none: "a Stable = None"
    using st by (simp add: analyze_metrics_returns)
  from none have "should_rollback a ?s = (False, ?s)"
    by (simp add: should_rollback_def)
  with st ca a none show ?thesis by blast
qed

theorem full_split_never_rolls_back_witness:
  "metrics (simulate_traffic 200 every_draw (route_traffic 100 init)) Stable = [] \<and>
   length (metrics (simulate_traffic 200 every_draw (route_traffic 100 init)) Canary) = 200 \<and>
   (\<exists>a. analyze_metrics (simulate_traffic 200 every_draw (route_traffic 100 init)) = Inr a \<and>
        a Stable = None \<and>
        fst (should_rollback a (simulate_traffic 200 every_draw (route_traffic 100 init))) = False)"
proof -
  let ?s = "simulate_traffic 200 every_draw (route_traffic 100 init)"
  have 1: "canary_percentage (route_traffic 100 init) = 100"
    by (simp add: route_traffic_def emit_def)
  have 2: "metrics (route_traffic 100 init) Stable = []"
    and ca0: "metrics (route_traffic 100 init) Canary = []"
    by (simp_all add: route_traffic_def emit_def init_def)
  have 3: "\<forall>i<200. 1 \<le> draw (every_draw i) \<and> draw (every_draw i) \<le> 100"
  proof (intro allI impI)
    fix i :: nat
    have "i mod 100 < 100" by simp
    then have "int (i mod 100) < 100" by linarith
    then show "1 \<le> draw (every_draw i) \<and> draw (every_draw i) \<le> 100"
      by (simp add: every_draw_def)
  qed
  from full_split_never_rolls_back [OF 1 2 3] obtain a where
    st: "metrics ?s Stable = []"
    and ca: "metrics ?s Canary = metrics (route_traffic 100 init) Canary @ map (\<lambda>i. outcome (every_draw i)) [0..<200]"
    and a: "analyze_metrics ?s = Inr a" "a Stable = None" "should_rollback a ?s = (False, ?s)"
    by blast
  from ca have "length (metrics ?s Canary) = 200"
    by (simp only: ca0 append_Nil length_map length_upt)
  with st a show ?thesis by auto
qed

text \<open>
  Claim C1. Take a run whose routing draws at the 100% stage lie in 1..100, as
  \<^verbatim>\<open>random.randint(1, 100)\<close> guarantees. If the 100% stage ran (the run printed three
  analyses), the change is applied to the stable database exactly when the evaluator's
  verdict on the analysis of that stage is false; if the 100% stage did not run, the
  change is never applied to the stable database. The code sends the promotion without
  calling \<^verbatim>\<open>should_rollback\<close> after the 100% stage; the equivalence holds because the
  verdict on that analysis is always false, the stable summary being absent.
\<close>

theorem promotion_iff_final_stage_passes:
  "journal self = [] \<Longrightarrow>
   \<forall>i<200. 1 \<le> draw (traffic w 2 i) \<and> draw (traffic w 2 i) \<le> 100 \<Longrightarrow>
   j = journal (run_canary_deployment w self) \<Longrightarrow>
     (length (reports j) = 3 \<longrightarrow> (promotions j = 1 \<longleftrightarrow> \<not> verdict (reports j ! 2))) \<and>
     (length (reports j) < 3 \<longrightarrow> promotions j = 0) \<and>
     promotions j \<le> 1"
proof -
  assume j0: "journal self = []"
    and d: "\<forall>i<200. 1 \<le> draw (traffic w 2 i) \<and> draw (traffic w 2 i) \<le> 100"
    and j: "j = journal (run_canary_deployment w self)"
  from d have "\<forall>i<200. draw (traffic w 2 i) \<le> 100" by simp
  then have v: "\<not> verdict (window_analysis 100 (traffic w 2))"
    by (rule verdict_full_rollout)
  show ?thesis
    unfolding j using v by (simp add: run_reports [OF j0] run_promotions [OF j0])
qed

theorem promotion_iff_final_stage_passes_witness:
  "length (reports (journal (run_canary_deployment calm init))) = 3 \<and>
   promotions (journal (run_canary_deployment calm init)) = 1 \<and>
   \<not> verdict (reports (journal (run_canary_deployment calm init)) ! 2)"
proof -
  let ?j = "journal (run_canary_deployment calm init)"
  have up: "stable_up calm \<and> canary_up calm \<and> stdout_encodes calm Check_Mark"
    by (simp add: calm_def)
  have d: "\<forall>i<200. 1 \<le> draw (traffic calm 2 i) \<and> draw (traffic calm 2 i) \<le> 100"
    by (simp add: calm_def)
  have len: "length (reports ?j) = 3"
    using up calm_passes by (simp add: run_reports)
  have pr: "promotions ?j = 1"
    using up calm_passes by (simp add: run_promotions)
  from promotion_iff_final_stage_passes [OF journal_init d refl] len pr
  show ?thesis by simp
qed



text \<open>
  The hypothesis on the standard output is needed. Where the standard output cannot
  encode U+2717 (ASCII, Latin-1, cp1252), the print of line 276 or 294 raises before
  \<^verbatim>\<open>rollback_canary\<close> is called: a true verdict then still ends the run with no later
  stage and no promotion, but no rollback is sent.
\<close>

lemma rollback_lost_without_mark:
  "journal self = [] \<Longrightarrow>
   \<forall>i<200. 1 \<le> draw (traffic w 2 i) \<and> draw (traffic w 2 i) \<le> 100 \<Longrightarrow>
   \<not> stdout_encodes w Ballot_X \<Longrightarrow>
   j = journal (run_canary_deployment w self) \<Longrightarrow>
   k < length (reports j) \<Longrightarrow> verdict (reports j ! k) \<Longrightarrow>
     rollbacks j = 0 \<and> promotions j = 0 \<and> length (reports j) = k + 1 \<and>
     last j = Uncaught UnicodeEncodeError"
proof -
  assume j0: "journal self = []"
    and d: "\<forall>i<200. 1 \<le> draw (traffic w 2 i) \<and> draw (traffic w 2 i) \<le> 100"
    and x: "\<not> stdout_encodes w Ballot_X"
    and j: "j = journal (run_canary_deployment w self)"
    and k: "k < length (reports j)" and vk: "verdict (reports j ! k)"
  from d have "\<forall>i<200. draw (traffic w 2 i) \<le> 100" by simp
  then have v: "\<not> verdict (window_analysis 100 (traffic w 2))"
    by (rule verdict_full_rollout)
  from k have up: "stable_up w \<and> canary_up w"
    unfolding j by (simp add: run_reports [OF j0] split: if_splits)
  from k vk v have fired: "verdict (first_analysis w self) \<or>
      stdout_encodes w Check_Mark \<and> verdict (window_analysis 50 (traffic w 1))"
    unfolding j
    by (auto simp add: run_reports [OF j0] nth_Cons less_Suc_eq split: if_splits nat.splits)
  from k vk v have len: "length (reports j) = k + 1"
    unfolding j
    by (auto simp add: run_reports [OF j0] nth_Cons less_Suc_eq split: if_splits nat.splits)
  from fired have pr: "promotions j = 0"
    unfolding j by (auto simp add: run_promotions [OF j0])
  from x have rb: "rollbacks j = 0"
    unfolding j by (simp add: run_rollbacks [OF j0])
  from run_last_rollback [OF j0 up fired] x have "last j = Uncaught UnicodeEncodeError"
    unfolding j by simp
  with rb pr len show ?thesis by simp
qed

text \<open>
  An instance: in the world \<open>spiking_ascii\<close> the verdict on the first stage is true, and
  the run ends on the exception with no rollback sent.
\<close>

lemma rollback_lost_on_ascii_stdout:
  "verdict (reports (journal (run_canary_deployment spiking_ascii init)) ! 0) \<and>
   rollbacks (journal (run_canary_deployment spiking_ascii init)) = 0 \<and>
   last (journal (run_canary_deployment spiking_ascii init)) = Uncaught UnicodeEncodeError"
proof -
  let ?j = "journal (run_canary_deployment spiking_ascii init)"
  have same: "first_analysis spiking_ascii init = first_analysis spiking init"
    by (simp add: first_analysis_def spiking_ascii_def)
  have up: "stable_up spiking_ascii \<and> canary_up spiking_ascii"
    by (simp add: spiking_ascii_def spiking_def)
  have x: "\<not> stdout_encodes spiking_ascii Ballot_X"
    by (simp add: spiking_ascii_def)
  have d: "\<forall>i<200. 1 \<le> draw (traffic spiking_ascii 2 i) \<and> draw (traffic spiking_ascii 2 i) \<le> 100"
    by (simp add: spiking_ascii_def spiking_def)
  have rep: "reports ?j = [first_analysis spiking init]"
    using up by (simp add: run_reports same spiking_fails)
  have k: "0 < length (reports ?j)" and vk: "verdict (reports ?j ! 0)"
    by (simp_all add: rep spiking_fails)
  from rollback_lost_without_mark [OF journal_init d x refl k vk] vk
  show ?thesis by simp
qed

text \<open>
  Claim C8. The analysis of the 50% stage and the analysis of the 100% stage are the
  analyses of windows filled from empty by that stage's requests alone: nothing recorded
  before the stage, in an earlier stage or before the run, enters them. In particular, if
  every request of such a stage succeeds, every summary of its analysis has an error rate
  of exactly 0, whatever the outcomes of the stage before were.
\<close>

theorem stage_window_isolated:
  "journal self = [] \<Longrightarrow> j = journal (run_canary_deployment w self) \<Longrightarrow>
     (1 < length (reports j) \<longrightarrow>
        reports j ! 1 = window_analysis 50 (traffic w 1) \<and>
        ((\<forall>i<200. query_ok (traffic w 1 i)) \<longrightarrow>
           (\<forall>e sm. (reports j ! 1) e = Some sm \<longrightarrow> error_rate sm = 0))) \<and>
     (2 < length (reports j) \<longrightarrow>
        reports j ! 2 = window_analysis 100 (traffic w 2) \<and>
        ((\<forall>i<200. query_ok (traffic w 2 i)) \<longrightarrow>
           (\<forall>e sm. (reports j ! 2) e = Some sm \<longrightarrow> error_rate sm = 0)))"
proof -
  assume j0: "journal self = []" and j: "j = journal (run_canary_deployment w self)"
  have zero: "error_rate sm = 0"
    if "\<forall>i<200. query_ok (rs i)" and "window_analysis p rs e = Some sm" for p rs e sm
  proof -
    let ?ms = "metrics (fresh_window p rs) e"
    from that(2) have ne: "?ms \<noteq> []" and sm: "sm = projr (summarize ?ms)"
      by (auto simp add: window_analysis_eq split: if_splits)
    have "\<forall>m\<in>set ?ms. success m"
      using that(1) by (auto dest!: set_fresh_window simp add: outcome_def)
    with ne sm show ?thesis by (simp add: summarize_all_success)
  qed
  show ?thesis
    unfolding j
    by (auto simp add: run_reports [OF j0] zero split: if_splits)
qed

theorem stage_window_isolated_witness:
  "1 < length (reports (journal (run_canary_deployment recovering init))) \<and>
   (\<exists>sm. (reports (journal (run_canary_deployment recovering init)) ! 0) Canary = Some sm \<and>
      error_rate sm = 100) \<and>
   (\<exists>sm. (reports (journal (run_canary_deployment recovering init)) ! 1) Canary = Some sm \<and>
      error_rate sm = 0)"
proof -
  let ?j = "journal (run_canary_deployment recovering init)"
  have up: "stable_up recovering \<and> canary_up recovering \<and> stdout_encodes recovering Check_Mark"
    by (simp add: recovering_def)
  have len: "1 < length (reports ?j)"
    using up by (simp add: run_reports recovering_first_passes)
  have r0: "reports ?j ! 0 = window_analysis 10 (traffic recovering 0)"
    using up by (simp add: run_reports first_analysis_fresh)
  let ?C0 = "metrics (fresh_window 10 (traffic recovering 0)) Canary"
  have ne0: "?C0 \<noteq> []"
    by (rule window_present [of 0]) (simp_all add: recovering_def routed_def)
  have "\<forall>m\<in>set ?C0. \<not> success m"
    by (auto dest!: window_member simp add: recovering_def outcome_def)
  with ne0 have "error_rate (projr (summarize ?C0)) = 100"
    by (simp add: summarize_all_failure)
  with ne0 r0 have first: "\<exists>sm. (reports ?j ! 0) Canary = Some sm \<and> error_rate sm = 100"
    by (simp add: window_analysis_eq)
  have ok: "\<forall>i<200. query_ok (traffic recovering 1 i)"
    by (simp add: recovering_def)
  have "metrics (fresh_window 50 (traffic recovering 1)) Canary \<noteq> []"
    by (rule window_present [of 0]) (simp_all add: recovering_def routed_def)
  then obtain sm where sm: "window_analysis 50 (traffic recovering 1) Canary = Some sm"
    by (simp add: window_analysis_eq)
  from stage_window_isolated [OF journal_init refl, of recovering] len ok sm
  have "(reports ?j ! 1) Canary = Some sm \<and> error_rate sm = 0"
    by auto
  with len first show ?thesis by blast
qed

end
